theory Spec2Isabelle
  imports Complex_Main "HOL-Library.Sublist" "HOL-Library.AList"
begin

section \<open>JavaScript values\<close>

text \<open>
  The values that travel through the SDK as request bodies and parsed response bodies.
  Numbers are the integer-valued ones (JSON integer literals in the range where double
  arithmetic is exact); an object is the list of its own properties in insertion order.
\<close>

datatype jsval = JUndefined | JNull | JBool bool | JNum int | JStr string
  | JArr "jsval list" | JObj "(string \<times> jsval) list"

text \<open>Truthiness, as used by \<^verbatim>\<open>!x\<close>, \<^verbatim>\<open>x ? a : b\<close> and \<^verbatim>\<open>x || y\<close>.\<close>

fun truthy :: "jsval \<Rightarrow> bool" where
  "truthy JUndefined = False"
| "truthy JNull = False"
| "truthy (JBool b) = b"
| "truthy (JNum n) = (n \<noteq> 0)"
| "truthy (JStr s) = (s \<noteq> [])"
| "truthy (JArr xs) = True"
| "truthy (JObj kvs) = True"

text \<open>\<^verbatim>\<open>x == null\<close>: loose equality with null holds for null and undefined only.\<close>

fun loose_null :: "jsval \<Rightarrow> bool" where
  "loose_null JUndefined = True"
| "loose_null JNull = True"
| "loose_null v = False"

fun isArray :: "jsval \<Rightarrow> bool" where
  "isArray (JArr xs) = True"
| "isArray v = False"

text \<open>The errors the code can end with: \<^verbatim>\<open>throw new Error(msg)\<close>, a TypeError of the
  language itself (a property read on null or undefined, a property write on a primitive
  in strict mode), and the rejection of an axios call.\<close>

datatype error = Error string | TypeError | AxiosError

text \<open>
  \<^verbatim>\<open>v.k\<close> for the property names the SDK reads (\<^verbatim>\<open>data\<close>, \<^verbatim>\<open>error\<close>), none of which
  is a built-in property of a string, number, boolean or array.
\<close>

fun get_prop :: "jsval \<Rightarrow> string \<Rightarrow> error + jsval" where
  "get_prop JUndefined k = Inl TypeError"
| "get_prop JNull k = Inl TypeError"
| "get_prop (JObj kvs) k = Inr (case map_of kvs k of None \<Rightarrow> JUndefined | Some v \<Rightarrow> v)"
| "get_prop v k = Inr JUndefined"

text \<open>
  What the language makes of a number, an array or an object when \<^verbatim>\<open>+\<close> joins it to a
  string (the conversions ToPrimitive and ToString): a string, or a TypeError, as for an
  object that has a property \<^verbatim>\<open>toString\<close> of its own. The SDK does not define it, and nothing
  is fixed about it here.
\<close>

definition stringOf :: "jsval \<Rightarrow> error + string" where
  "stringOf = (SOME f. True)"

text \<open>\<^verbatim>\<open>s.indexOf(p)\<close>: the first position at which \<open>p\<close> occurs in \<open>s\<close>, or \<open>-1\<close>.\<close>

fun indexOf_from :: "nat \<Rightarrow> string \<Rightarrow> string \<Rightarrow> int" where
  "indexOf_from i [] p = (if p = [] then int i else - 1)"
| "indexOf_from i (c # cs) p =
     (if prefix p (c # cs) then int i else indexOf_from (Suc i) cs p)"

definition indexOf :: "string \<Rightarrow> string \<Rightarrow> int" where
  "indexOf s p = indexOf_from 0 s p"


section \<open>The remote service and the clock\<close>

datatype verb = DELETE | GET | POST | PATCH

datatype authmode = Bearer | Key

record request =
  req_method :: verb
  req_url :: string
  req_headers :: "(string \<times> string) list"
  req_body :: "jsval option"

text \<open>What an axios call resolves with: the fields of the response the SDK reads.\<close>

record response =
  status :: int
  statusText :: string
  data :: jsval

text \<open>The body of a token grant, under the type assertion \<^verbatim>\<open>response.data as TokenResponse\<close>.\<close>

record TokenResponse =
  access_token :: string
  expires_in :: int

text \<open>
  Everything outside the process. \<open>clock w k\<close> is the value of the \<open>k\<close>-th call of
  \<^verbatim>\<open>Date.now()\<close> (milliseconds) and \<open>reads\<close> counts the calls made so far. The remote
  service answers a request in the light of all earlier requests. \<open>api\<close> is the answer of
  every endpoint but the token endpoint, whatever its status, and \<open>None\<close> when no answer
  arrives. \<open>authToken\<close> is the token endpoint as \<^verbatim>\<open>getAccessToken\<close> sees it through axios:
  the grant of a 2xx answer, and \<open>None\<close> when axios rejects. \<open>log\<close> holds the requests sent
  so far, oldest first.
\<close>

record world =
  clock :: "nat \<Rightarrow> int"
  reads :: nat
  authToken :: "request list \<Rightarrow> request \<Rightarrow> TokenResponse option"
  api :: "request list \<Rightarrow> request \<Rightarrow> response option"
  log :: "request list"

definition Date_now :: "world \<Rightarrow> int \<times> world" where
  "Date_now w = (clock w (reads w), w\<lparr>reads := Suc (reads w)\<rparr>)"

text \<open>
  How axios settles a call. The SDK calls the default instance and passes no
  \<^verbatim>\<open>validateStatus\<close>, so the default decides: the promise resolves when the status of the
  answer is 2xx and is rejected otherwise.
\<close>

definition validateStatus :: "int \<Rightarrow> bool" where
  "validateStatus st = (200 \<le> st \<and> st < 300)"


section \<open>The client session (TypeScript implementation)\<close>

definition SECRET_API_KEY_PREFIX :: string where
  "SECRET_API_KEY_PREFIX = ''s_''"

record session =
  apiKey :: string
  userId :: string
  accessToken :: "string option"
  accessTokenExpiry :: "int option"
  endpoint :: string

text \<open>The constructor; \<open>uuid\<close> is what \<^verbatim>\<open>_uuidv4()\<close> returns, asked for only when no user id
  is given.\<close>

definition DEFAULT_API_VERSION :: string where
  "DEFAULT_API_VERSION = ''1''"


text \<open>\<^verbatim>\<open>!this.accessToken\<close>: null and the empty string are falsy.\<close>

fun noToken :: "string option \<Rightarrow> bool" where
  "noToken None = True"
| "noToken (Some t) = (t = [])"

definition getAuthHeaderSecretKey :: "session \<Rightarrow> (string \<times> string) list" where
  "getAuthHeaderSecretKey s = [(''Authorization'', apiKey s)]"

definition commonRequestHeaders :: "(string \<times> string) list" where
  "commonRequestHeaders =
     [(''Content-Type'', ''application/json''), (''Accept'', ''application/json''),
      (''Accept-Encoding'', ''application/json'')]"

definition isKeySecret :: "session \<Rightarrow> bool" where
  "isKeySecret s = (indexOf (apiKey s) SECRET_API_KEY_PREFIX = 0)"

text \<open>The request of \<^verbatim>\<open>getAccessToken\<close>: a POST to \<^verbatim>\<open>/auth/token\<close> with the user id as body
  and the key header alone.\<close>

definition tokenRequest :: "session \<Rightarrow> request" where
  "tokenRequest s =
     \<lparr>req_method = POST, req_url = endpoint s @ ''/auth/token'',
      req_headers = getAuthHeaderSecretKey s,
      req_body = Some (JObj [(''user_id'', JStr (userId s))])\<rparr>"

text \<open>The object \<^verbatim>\<open>{accessToken, expiresIn}\<close> that \<^verbatim>\<open>getAccessToken\<close> and \<^verbatim>\<open>setAccessToken\<close>
  return. Its first field is called \<open>tokenOf\<close> here, \<open>accessToken\<close> being the field of the
  session; the second is a quotient in \<^verbatim>\<open>setAccessToken\<close>, hence the type parameter.\<close>

record 'n AccessTokenResponse =
  tokenOf :: "string option"
  expiresIn :: 'n

definition getAccessToken ::
  "session \<Rightarrow> world \<Rightarrow> (error + int AccessTokenResponse) \<times> session \<times> world" where
  "getAccessToken s w =
     (let w1 = w\<lparr>log := log w @ [tokenRequest s]\<rparr> in
      case authToken w (log w) (tokenRequest s) of
        None \<Rightarrow> (Inl AxiosError, s, w1)
      | Some t \<Rightarrow>
          (Inr \<lparr>tokenOf = Some (access_token t), expiresIn = expires_in t\<rparr>,
           s\<lparr>accessToken := Some (access_token t)\<rparr>, w1))"

text \<open>The guard of \<^verbatim>\<open>setAccessToken\<close>; \<^verbatim>\<open>||\<close> short-circuits, so the clock is read only
  when a token and an expiry are stored.\<close>

definition setAccessToken_guard :: "session \<Rightarrow> world \<Rightarrow> bool \<times> world" where
  "setAccessToken_guard s w =
     (if noToken (accessToken s) then (True, w)
      else case accessTokenExpiry s of
        None \<Rightarrow> (True, w)
      | Some e \<Rightarrow> (let (now, w1) = Date_now w in (e < now, w1)))"

text \<open>The return statement of \<^verbatim>\<open>setAccessToken\<close>; a null expiry would count as 0 in the
  subtraction.\<close>

definition setAccessToken_result ::
  "session \<Rightarrow> world \<Rightarrow> (error + rat AccessTokenResponse) \<times> session \<times> world" where
  "setAccessToken_result s w =
     (let (now, w1) = Date_now w;
          e = (case accessTokenExpiry s of None \<Rightarrow> 0 | Some e \<Rightarrow> e)
      in (Inr \<lparr>tokenOf = accessToken s, expiresIn = of_int (e - now) / 1000 + 10\<rparr>, s, w1))"

definition setAccessToken ::
  "session \<Rightarrow> world \<Rightarrow> (error + rat AccessTokenResponse) \<times> session \<times> world" where
  "setAccessToken s w =
     (let (stale, w1) = setAccessToken_guard s w in
      if stale then
        (case getAccessToken s w1 of
           (Inl e, s2, w2) \<Rightarrow> (Inl e, s2, w2)
         | (Inr g, s2, w2) \<Rightarrow>
             (let s3 = s2\<lparr>accessToken := tokenOf g\<rparr>;
                  (now, w3) = Date_now w2;
                  s4 = s3\<lparr>accessTokenExpiry := Some (now + (expiresIn g - 10) * 1000)\<rparr>
              in setAccessToken_result s4 w3))
      else setAccessToken_result s w1)"

definition setUserId ::
  "string \<Rightarrow> session \<Rightarrow> world \<Rightarrow> (error + unit) \<times> session \<times> world" where
  "setUserId newId s w =
     (if newId = userId s then (Inr (), s, w)
      else if length newId \<noteq> 0 then
        (let s1 = s\<lparr>userId := newId, accessToken := None\<rparr> in
         case setAccessToken s1 w of
           (Inl e, s2, w2) \<Rightarrow> (Inl e, s2, w2)
         | (Inr r, s2, w2) \<Rightarrow> (Inr (), s2, w2))
      else (Inl (Error ''The parameter userId must have length''), s, w))"

definition getAuthHeadersAudienceEndpoints ::
  "session \<Rightarrow> world \<Rightarrow> (error + (string \<times> string) list) \<times> session \<times> world" where
  "getAuthHeadersAudienceEndpoints s w =
     (if isKeySecret s then
        (Inr (AList.update ''Fictioneers-User-ID'' (userId s)
               (AList.update ''Authorization'' (apiKey s) [])), s, w)
      else
        (case setAccessToken s w of
           (Inl e, s1, w1) \<Rightarrow> (Inl e, s1, w1)
         | (Inr r, s1, w1) \<Rightarrow>
             (case accessToken s1 of
                None \<Rightarrow>
                  (Inl (Error ''Could not assemble auth headers with bearer - no access token''),
                   s1, w1)
              | Some t \<Rightarrow>
                  if t = [] then
                    (Inl (Error ''Could not assemble auth headers with bearer - no access token''),
                     s1, w1)
                  else (Inr (AList.update ''Authorization'' (''Bearer '' @ t) []), s1, w1))))"


section \<open>The request dispatcher\<close>

text \<open>\<^verbatim>\<open>{...a, ...b}\<close>: the properties of \<open>a\<close>, then those of \<open>b\<close> assigned over them.\<close>

definition spread :: "(string \<times> string) list \<Rightarrow> (string \<times> string) list \<Rightarrow> (string \<times> string) list" where
  "spread a b = foldl (\<lambda>h (k, v). AList.update k v h) a b"

definition DEPRECATION_NOTICE :: string where
  "DEPRECATION_NOTICE =
     '' Notice: this API endpoint has been deprecated and will be removed in a future version of this SDK.''"

text \<open>The envelope that \<^verbatim>\<open>_doFetch\<close> builds for a DELETE call.\<close>

definition deleteEnvelope :: "response \<Rightarrow> jsval" where
  "deleteEnvelope r =
     JObj [(''data'', JNull),
           (''error'', if status r \<ge> 400 then JStr (statusText r) else JNull),
           (''meta'', JNull),
           (''status'', JNum 204)]"

text \<open>
  The string that \<^verbatim>\<open>(responseData.error ? responseData.error : "")\<close> puts in front of the
  notice: nothing for a falsy value, a string itself, \<^verbatim>\<open>true\<close> for the boolean, and for a
  number, an array or an object whatever the language makes of it.
\<close>

definition errorPrefix :: "jsval \<Rightarrow> error + string" where
  "errorPrefix e =
     (if \<not> truthy e then Inr []
      else case e of JStr t \<Rightarrow> Inr t | JBool b \<Rightarrow> Inr ''true'' | _ \<Rightarrow> stringOf e)"

text \<open>
  The assignment \<^verbatim>\<open>responseData.error = (responseData.error ? responseData.error : "") + notice\<close>
  on a value that is not an array. Reading a property of null or undefined throws, and so
  does, in the strict mode of a class body, writing a property of a string, number or
  boolean. \<^verbatim>\<open>_doFetch\<close> never gets here with an array, which is returned as it is.
\<close>

fun deprecate :: "jsval \<Rightarrow> error + jsval" where
  "deprecate (JObj kvs) =
     (case errorPrefix (case map_of kvs ''error'' of None \<Rightarrow> JUndefined | Some v \<Rightarrow> v) of
        Inl x \<Rightarrow> Inl x
      | Inr t \<Rightarrow> Inr (JObj (AList.update ''error'' (JStr (t @ DEPRECATION_NOTICE)) kvs)))"
| "deprecate (JArr xs) = Inr (JArr xs)"
| "deprecate v = Inl TypeError"

text \<open>What each verb sends as body: POST and PATCH send \<^verbatim>\<open>body || {}\<close>, GET and DELETE send
  none.\<close>

definition requestBody :: "verb \<Rightarrow> jsval \<Rightarrow> jsval option" where
  "requestBody method body =
     (case method of
        POST \<Rightarrow> Some (if truthy body then body else JObj [])
      | PATCH \<Rightarrow> Some (if truthy body then body else JObj [])
      | DELETE \<Rightarrow> None
      | GET \<Rightarrow> None)"

text \<open>The request that \<^verbatim>\<open>_doFetch\<close> hands to axios.\<close>

definition fetchRequest ::
  "session \<Rightarrow> string \<Rightarrow> verb \<Rightarrow> jsval \<Rightarrow> (string \<times> string) list \<Rightarrow> request" where
  "fetchRequest s url method body authHeaders =
     \<lparr>req_method = method, req_url = endpoint s @ url,
      req_headers = spread commonRequestHeaders authHeaders,
      req_body = requestBody method body\<rparr>"

text \<open>\<^verbatim>\<open>_doFetch\<close> in its three steps: the auth headers for the mode, the axios call, which
  is rejected when no answer arrives or the status is not 2xx, and the shaping of what
  axios resolved with.\<close>

definition doFetch_authHeaders ::
  "authmode \<Rightarrow> session \<Rightarrow> world \<Rightarrow> (error + (string \<times> string) list) \<times> session \<times> world" where
  "doFetch_authHeaders auth s w =
     (if auth = Bearer then getAuthHeadersAudienceEndpoints s w
      else (Inr (getAuthHeaderSecretKey s), s, w))"

definition doFetch_shape :: "verb \<Rightarrow> bool \<Rightarrow> response \<Rightarrow> error + jsval" where
  "doFetch_shape method deprecated response =
     (if method = DELETE then Inr (deleteEnvelope response)
      else if deprecated \<and> \<not> isArray (data response) then deprecate (data response)
      else Inr (data response))"

definition doFetch ::
  "string \<Rightarrow> verb \<Rightarrow> authmode \<Rightarrow> jsval \<Rightarrow> bool \<Rightarrow> session \<Rightarrow> world
     \<Rightarrow> (error + jsval) \<times> session \<times> world" where
  "doFetch url method auth body deprecated s w =
     (case doFetch_authHeaders auth s w of
        (Inl e, s1, w1) \<Rightarrow> (Inl e, s1, w1)
      | (Inr authHeaders, s1, w1) \<Rightarrow>
          (let rq = fetchRequest s1 url method body authHeaders;
               w2 = w1\<lparr>log := log w1 @ [rq]\<rparr>
           in case api w1 (log w1) rq of
                None \<Rightarrow> (Inl AxiosError, s1, w2)
              | Some response \<Rightarrow>
                  if validateStatus (status response)
                  then (doFetch_shape method deprecated response, s1, w2)
                  else (Inl AxiosError, s1, w2)))"


section \<open>Endpoint methods and the workflow\<close>

definition getUser :: "session \<Rightarrow> world \<Rightarrow> (error + jsval) \<times> session \<times> world" where
  "getUser s w = doFetch ''/users/me'' GET Bearer JNull False s w"

definition deleteUser :: "session \<Rightarrow> world \<Rightarrow> (error + jsval) \<times> session \<times> world" where
  "deleteUser s w = doFetch ''/users/me'' DELETE Bearer JNull False s w"

definition deleteTimelineUsers ::
  "string \<Rightarrow> session \<Rightarrow> world \<Rightarrow> (error + jsval) \<times> session \<times> world" where
  "deleteTimelineUsers timelineId s w =
     doFetch (''/timelines/'' @ timelineId @ ''/users'') DELETE Key JNull False s w"

definition createUser ::
  "string \<Rightarrow> bool \<Rightarrow> bool \<Rightarrow> int option \<Rightarrow> session \<Rightarrow> world
     \<Rightarrow> (error + jsval) \<times> session \<times> world" where
  "createUser timelineId disableTimeGuards pauseAtBeats maxSteps s w =
     doFetch ''/users'' POST Bearer
       (JObj [(''published_timeline_id'', JStr timelineId),
              (''timezone'', JStr ''Europe/London''),
              (''disable_time_guards'', JBool disableTimeGuards),
              (''pause_at_beats'', JBool pauseAtBeats),
              (''max_steps'', case maxSteps of None \<Rightarrow> JNull | Some n \<Rightarrow> JNum n)])
       False s w"

definition getUserTimelineEvents ::
  "session \<Rightarrow> world \<Rightarrow> (error + jsval) \<times> session \<times> world" where
  "getUserTimelineEvents s w = doFetch ''/user-timeline-events'' GET Bearer JNull False s w"

record InitialiseAndProgressUser =
  user :: jsval
  userTimelineEvents :: jsval

definition initialiseAndProgressUser ::
  "string \<Rightarrow> bool \<Rightarrow> bool \<Rightarrow> int option \<Rightarrow> session \<Rightarrow> world
     \<Rightarrow> (error + InitialiseAndProgressUser) \<times> session \<times> world" where
  "initialiseAndProgressUser timelineId disableTimeGuards pauseAtBeats maxSteps s w =
     (case getUser s w of
        (Inl e, s1, w1) \<Rightarrow> (Inl e, s1, w1)
      | (Inr getUserResponse, s1, w1) \<Rightarrow>
     (case get_prop getUserResponse ''data'' of
        Inl e \<Rightarrow> (Inl e, s1, w1)
      | Inr d \<Rightarrow>
     (case (if loose_null d then
              (case createUser timelineId disableTimeGuards pauseAtBeats maxSteps s1 w1 of
                 (Inl e, s2, w2) \<Rightarrow> (Inl e, s2, w2)
               | (Inr createUserResponse, s2, w2) \<Rightarrow>
                   (get_prop createUserResponse ''data'', s2, w2))
            else (Inr JUndefined, s1, w1)) of
        (Inl e, s2, w2) \<Rightarrow> (Inl e, s2, w2)
      | (Inr u, s2, w2) \<Rightarrow>
     (case getUserTimelineEvents s2 w2 of
        (Inl e, s3, w3) \<Rightarrow> (Inl e, s3, w3)
      | (Inr userTimelineEventsResponse, s3, w3) \<Rightarrow>
     (case get_prop userTimelineEventsResponse ''data'' of
        Inl e \<Rightarrow> (Inl e, s3, w3)
      | Inr ev \<Rightarrow>
          (Inr \<lparr>user = u, userTimelineEvents = (if truthy ev then ev else JArr [])\<rparr>,
           s3, w3))))))"


section \<open>The older JavaScript implementation of the user-id setter\<close>

record js_session =
  apiSecretKey :: string
  js_userId :: string
  js_accessToken :: "string option"
  js_accessTokenExpiry :: "int option"

text \<open>
  The setter as the older file writes it. That file has a method, \<^verbatim>\<open>_getAuthHeadersBearer\<close>,
  which uses \<^verbatim>\<open>await\<close> without being async, so the module does not load as it stands; the
  definition follows the text of the setter. Its call \<^verbatim>\<open>this.setAccessToken()\<close> is not
  awaited and writes no field before the setter returns; the token request it leads to
  is addressed to the static \<^verbatim>\<open>Fictioneers._endpoint\<close>, which is never assigned, and a URL
  that is not absolute is refused before anything is sent.
\<close>

definition js_setUserId ::
  "string \<Rightarrow> js_session \<Rightarrow> world \<Rightarrow> (error + unit) \<times> js_session \<times> world" where
  "js_setUserId newId s w =
     (if length newId \<noteq> 0 then (Inr (), s\<lparr>js_userId := newId, js_accessToken := None\<rparr>, w)
      else (Inl (Error ''The parameter userId must have length''), s, w))"


section \<open>Observing a run\<close>

text \<open>The requests sent between two states of the world, and among them the token
  exchanges and the calls to the other endpoints (verb, URL and body of each).\<close>

text \<open>The condition under which \<^verbatim>\<open>setAccessToken\<close> asks for a new token, with \<open>now\<close>
  the current time: no token, no expiry, or an expiry earlier than \<open>now\<close>.\<close>

definition tokenStale :: "session \<Rightarrow> int \<Rightarrow> bool" where
  "tokenStale s now =
     (noToken (accessToken s) \<or> (case accessTokenExpiry s of None \<Rightarrow> True | Some e \<Rightarrow> e < now))"

text \<open>The index of the clock reading that \<^verbatim>\<open>setAccessToken\<close> takes right after a token
  exchange: the guard has read the clock before it only if a token and an expiry were
  stored.\<close>

definition refreshReading :: "session \<Rightarrow> world \<Rightarrow> nat" where
  "refreshReading s w =
     (if noToken (accessToken s) \<or> accessTokenExpiry s = None then reads w else Suc (reads w))"

definition newRequests :: "world \<Rightarrow> world \<Rightarrow> request list" where
  "newRequests w w' = drop (length (log w)) (log w')"

definition isTokenExchange :: "session \<Rightarrow> request \<Rightarrow> bool" where
  "isTokenExchange s rq = (req_method rq = POST \<and> req_url rq = endpoint s @ ''/auth/token'')"

definition tokenExchanges :: "session \<Rightarrow> world \<Rightarrow> world \<Rightarrow> nat" where
  "tokenExchanges s w w' = length (filter (isTokenExchange s) (newRequests w w'))"

definition apiCalls :: "session \<Rightarrow> world \<Rightarrow> world \<Rightarrow> (verb \<times> string \<times> jsval option) list" where
  "apiCalls s w w' =
     map (\<lambda>rq. (req_method rq, req_url rq, req_body rq))
       (filter (\<lambda>rq. \<not> isTokenExchange s rq) (newRequests w w'))"


section \<open>Sample sessions and a sample remote service\<close>

definition sampleEndpoint :: string where
  "sampleEndpoint = ''https://api.fictioneers.co.uk/v1''"

text \<open>A session with a secret key, one with a visible key and nothing cached, one with a
  visible key and a cached token that expires at time 1000, and one built with the empty
  string as user id.\<close>

definition secretSession :: session where
  "secretSession =
     \<lparr>apiKey = ''s_live'', userId = ''u1'', accessToken = None, accessTokenExpiry = None,
      endpoint = sampleEndpoint\<rparr>"

definition publicSession :: session where
  "publicSession =
     \<lparr>apiKey = ''p_live'', userId = ''u1'', accessToken = None, accessTokenExpiry = None,
      endpoint = sampleEndpoint\<rparr>"

definition cachedSession :: session where
  "cachedSession =
     \<lparr>apiKey = ''p_live'', userId = ''u1'', accessToken = Some ''tok'',
      accessTokenExpiry = Some 1000, endpoint = sampleEndpoint\<rparr>"

definition namelessSession :: session where
  "namelessSession =
     \<lparr>apiKey = ''s_live'', userId = [], accessToken = None, accessTokenExpiry = None,
      endpoint = sampleEndpoint\<rparr>"

definition legacySession :: js_session where
  "legacySession =
     \<lparr>apiSecretKey = ''s_live'', js_userId = ''u1'', js_accessToken = Some ''tok'',
      js_accessTokenExpiry = Some 5000\<rparr>"

text \<open>
  A remote service that answers every request: deleting the current user finds nothing
  (status 404), any other DELETE succeeds without content, a POST creates user \<open>u1\<close>, a
  PATCH answers with an empty body, the timelines come as a top-level array, the story
  state comes with an error text, and the current user and the user timeline events come
  in an envelope around the given \<open>data\<close> values.
\<close>

definition sampleApi :: "jsval \<Rightarrow> jsval \<Rightarrow> request list \<Rightarrow> request \<Rightarrow> response option" where
  "sampleApi userData eventsData history rq =
     (if req_method rq = DELETE then
        (if req_url rq = sampleEndpoint @ ''/users/me''
         then Some \<lparr>status = 404, statusText = ''Not Found'', data = JStr []\<rparr>
         else Some \<lparr>status = 204, statusText = ''No Content'', data = JStr []\<rparr>)
      else if req_method rq = POST then
        Some \<lparr>status = 201, statusText = ''Created'',
              data = JObj [(''data'', JObj [(''id'', JStr ''u1'')]), (''error'', JNull)]\<rparr>
      else if req_method rq = PATCH then
        Some \<lparr>status = 200, statusText = ''OK'', data = JStr []\<rparr>
      else if req_url rq = sampleEndpoint @ ''/timelines'' then
        Some \<lparr>status = 200, statusText = ''OK'', data = JArr [JObj [(''id'', JStr ''t1'')]]\<rparr>
      else if req_url rq = sampleEndpoint @ ''/user-story-state'' then
        Some \<lparr>status = 200, statusText = ''OK'',
              data = JObj [(''data'', JNull), (''error'', JStr ''moved'')]\<rparr>
      else if req_url rq = sampleEndpoint @ ''/users/me'' then
        Some \<lparr>status = 200, statusText = ''OK'',
              data = JObj [(''data'', userData), (''error'', JNull)]\<rparr>
      else
        Some \<lparr>status = 200, statusText = ''OK'',
              data = JObj [(''data'', eventsData), (''error'', JNull)]\<rparr>)"

text \<open>A world in which the clock stands at \<open>now\<close> and every token grant is \<open>fresh\<close>, valid
  for 60 seconds.\<close>

definition sampleWorld :: "int \<Rightarrow> jsval \<Rightarrow> jsval \<Rightarrow> world" where
  "sampleWorld now userData eventsData =
     \<lparr>clock = (\<lambda>k. now), reads = 0,
      authToken = (\<lambda>history rq. Some \<lparr>access_token = ''fresh'', expires_in = 60\<rparr>),
      api = sampleApi userData eventsData, log = []\<rparr>"

text \<open>The same world with a token endpoint that turns every exchange down.\<close>

definition deniedWorld :: "int \<Rightarrow> world" where
  "deniedWorld now = (sampleWorld now JNull JNull)\<lparr>authToken := (\<lambda>history rq. None)\<rparr>"

text \<open>
  Modelled from the spec: the type \<^verbatim>\<open>UserTimelineEventList\<close> of \<^verbatim>\<open>types.js\<close>, which is not
  among the sources. It is the envelope \<^verbatim>\<open>{data, error, meta, status}\<close> of the spec with the
  list of user timeline events as \<open>data\<close>; this is what the type admits for \<open>data\<close>: a list,
  or null or nothing.
\<close>

definition eventListData :: "jsval \<Rightarrow> bool" where
  "eventListData d = (loose_null d \<or> isArray d)"

text \<open>The pairing of token and expiry: both null or both stored.\<close>

definition paired :: "session \<Rightarrow> bool" where
  "paired s = (accessToken s = None \<longleftrightarrow> accessTokenExpiry s = None)"


section \<open>Unfolding and auxiliary facts\<close>

lemmas session_defs = secretSession_def publicSession_def cachedSession_def namelessSession_def
  legacySession_def sampleEndpoint_def sampleWorld_def sampleApi_def deniedWorld_def

lemmas model_defs = getAuthHeadersAudienceEndpoints_def isKeySecret_def indexOf_def
  SECRET_API_KEY_PREFIX_def setAccessToken_def setAccessToken_guard_def
  setAccessToken_result_def getAccessToken_def tokenRequest_def getAuthHeaderSecretKey_def
  Date_now_def doFetch_def doFetch_authHeaders_def doFetch_shape_def fetchRequest_def
  requestBody_def deleteEnvelope_def spread_def commonRequestHeaders_def setUserId_def
  js_setUserId_def validateStatus_def
  getUser_def createUser_def getUserTimelineEvents_def
  initialiseAndProgressUser_def deleteUser_def deleteTimelineUsers_def

lemmas observer_defs = tokenStale_def refreshReading_def newRequests_def isTokenExchange_def
  tokenExchanges_def apiCalls_def paired_def

lemma indexOf_from_range: "indexOf_from i s p = - 1 \<or> int i \<le> indexOf_from i s p"
proof (induction s arbitrary: i)
  case Nil
  show ?case by simp
next
  case (Cons c cs)
  from Cons.IH [of "Suc i"] show ?case by auto
qed

lemma indexOf_zero_iff_prefix: "indexOf s p = 0 \<longleftrightarrow> prefix p s"
proof (cases s)
  case Nil
  then show ?thesis by (simp add: indexOf_def)
next
  case (Cons c cs)
  from indexOf_from_range [of "Suc 0" cs p] have "indexOf_from (Suc 0) cs p \<noteq> 0" by auto
  with Cons show ?thesis by (simp add: indexOf_def)
qed

lemma isKeySecret_iff: "isKeySecret s \<longleftrightarrow> prefix SECRET_API_KEY_PREFIX (apiKey s)"
  by (simp add: isKeySecret_def indexOf_zero_iff_prefix)

subsection \<open>Token refresh\<close>

lemma guard_fst: "fst (setAccessToken_guard s w) = tokenStale s (clock w (reads w))"
  by (auto simp: setAccessToken_guard_def tokenStale_def Date_now_def split: option.splits)

lemma guard_snd:
  "snd (setAccessToken_guard s w) = w\<lparr>reads :=
     (if noToken (accessToken s) \<or> accessTokenExpiry s = None then reads w else Suc (reads w))\<rparr>"
  by (auto simp: setAccessToken_guard_def Date_now_def split: option.splits)

lemma guard_eq:
  "setAccessToken_guard s w = (tokenStale s (clock w (reads w)), w\<lparr>reads :=
     (if noToken (accessToken s) \<or> accessTokenExpiry s = None then reads w else Suc (reads w))\<rparr>)"
  using guard_fst [of s w] guard_snd [of s w] by (cases "setAccessToken_guard s w") simp

lemma setAccessToken_fresh:
  assumes "\<not> tokenStale s (clock w (reads w))"
  shows "\<exists>r. setAccessToken s w = (Inr r, s, w\<lparr>reads := reads w + 2\<rparr>)"
  using assms
  by (auto simp: setAccessToken_def guard_eq tokenStale_def Date_now_def
      setAccessToken_result_def split: option.splits)

lemma setAccessToken_rejected:
  assumes "tokenStale s (clock w (reads w))" "authToken w (log w) (tokenRequest s) = None"
  shows "setAccessToken s w =
     (Inl AxiosError, s,
      w\<lparr>reads := (if noToken (accessToken s) \<or> accessTokenExpiry s = None then reads w
                   else Suc (reads w)),
        log := log w @ [tokenRequest s]\<rparr>)"
  using assms
  by (simp add: setAccessToken_def getAccessToken_def guard_eq)

lemma setAccessToken_granted:
  assumes "tokenStale s (clock w (reads w))" "authToken w (log w) (tokenRequest s) = Some t"
    and "k = (if noToken (accessToken s) \<or> accessTokenExpiry s = None then reads w else Suc (reads w))"
  shows "\<exists>r. setAccessToken s w =
     (Inr r,
      s\<lparr>accessToken := Some (access_token t),
        accessTokenExpiry := Some (clock w k + (expires_in t - 10) * 1000)\<rparr>,
      w\<lparr>reads := k + 2, log := log w @ [tokenRequest s]\<rparr>)"
  using assms
  by (simp add: setAccessToken_def getAccessToken_def guard_eq Date_now_def
      setAccessToken_result_def)

lemma setAccessToken_world:
  assumes "setAccessToken s w = (r, s', w')"
  shows "api w' = api w" "authToken w' = authToken w" "clock w' = clock w"
    "log w' = (if tokenStale s (clock w (reads w)) then log w @ [tokenRequest s] else log w)"
    "endpoint s' = endpoint s" "apiKey s' = apiKey s" "userId s' = userId s"
proof -
  consider (fresh) "\<not> tokenStale s (clock w (reads w))"
    | (rejected) "tokenStale s (clock w (reads w))" "authToken w (log w) (tokenRequest s) = None"
    | (granted) t where "tokenStale s (clock w (reads w))" "authToken w (log w) (tokenRequest s) = Some t"
    by (cases "authToken w (log w) (tokenRequest s)") auto
  then have "api w' = api w \<and> authToken w' = authToken w \<and> clock w' = clock w \<and>
    log w' = (if tokenStale s (clock w (reads w)) then log w @ [tokenRequest s] else log w) \<and>
    endpoint s' = endpoint s \<and> apiKey s' = apiKey s \<and> userId s' = userId s"
  proof cases
    case fresh
    from setAccessToken_fresh [OF fresh] assms fresh show ?thesis by auto
  next
    case rejected
    from setAccessToken_rejected [OF rejected] assms rejected(1) show ?thesis by auto
  next
    case granted
    from setAccessToken_granted [OF granted refl] assms granted(1) show ?thesis by auto
  qed
  then show "api w' = api w" "authToken w' = authToken w" "clock w' = clock w"
    "log w' = (if tokenStale s (clock w (reads w)) then log w @ [tokenRequest s] else log w)"
    "endpoint s' = endpoint s" "apiKey s' = apiKey s" "userId s' = userId s"
    by simp_all
qed

lemma headers_world:
  assumes "getAuthHeadersAudienceEndpoints s w = (r, s', w')"
  shows "api w' = api w" "authToken w' = authToken w" "clock w' = clock w"
    "log w' = (if \<not> isKeySecret s \<and> tokenStale s (clock w (reads w))
               then log w @ [tokenRequest s] else log w)"
    "endpoint s' = endpoint s" "apiKey s' = apiKey s" "userId s' = userId s"
proof -
  obtain r1 s1 w1 where sa: "setAccessToken s w = (r1, s1, w1)"
    by (cases "setAccessToken s w") auto
  have eq: "isKeySecret s \<and> s' = s \<and> w' = w \<or> \<not> isKeySecret s \<and> s' = s1 \<and> w' = w1"
    using assms sa
    by (auto simp: getAuthHeadersAudienceEndpoints_def split: if_splits sum.splits option.splits)
  from eq setAccessToken_world [OF sa]
  show "api w' = api w" "authToken w' = authToken w" "clock w' = clock w"
    "log w' = (if \<not> isKeySecret s \<and> tokenStale s (clock w (reads w))
               then log w @ [tokenRequest s] else log w)"
    "endpoint s' = endpoint s" "apiKey s' = apiKey s" "userId s' = userId s"
    by auto
qed




subsection \<open>Dispatch\<close>

lemma doFetch_authHeaders_world:
  assumes "doFetch_authHeaders auth s w = (r, s', w')"
  shows "api w' = api w" "authToken w' = authToken w" "clock w' = clock w"
    "log w' = (if auth = Bearer \<and> \<not> isKeySecret s \<and> tokenStale s (clock w (reads w))
               then log w @ [tokenRequest s] else log w)"
    "endpoint s' = endpoint s" "apiKey s' = apiKey s" "userId s' = userId s"
  using assms headers_world [of s w r s' w']
  by (auto simp: doFetch_authHeaders_def split: if_splits)

lemma doFetch_resolved:
  assumes "doFetch_authHeaders auth s w = (Inr h, s1, w1)"
    and "api w1 (log w1) (fetchRequest s1 url method body h) = Some r"
    and "validateStatus (status r)"
  shows "doFetch url method auth body deprecated s w =
     (doFetch_shape method deprecated r, s1,
      w1\<lparr>log := log w1 @ [fetchRequest s1 url method body h]\<rparr>)"
  using assms by (simp add: doFetch_def)

lemma doFetch_rejected:
  assumes "doFetch_authHeaders auth s w = (Inr h, s1, w1)"
    and "api w1 (log w1) (fetchRequest s1 url method body h) = Some r"
    and "\<not> validateStatus (status r)"
  shows "doFetch url method auth body deprecated s w =
     (Inl AxiosError, s1, w1\<lparr>log := log w1 @ [fetchRequest s1 url method body h]\<rparr>)"
  using assms by (simp add: doFetch_def)

lemma doFetch_Inr:
  assumes "doFetch url method auth body deprecated s w = (Inr v, s', w')"
  obtains h w1 r where "doFetch_authHeaders auth s w = (Inr h, s', w1)"
    and "api w1 (log w1) (fetchRequest s' url method body h) = Some r"
    and "validateStatus (status r)"
    and "doFetch_shape method deprecated r = Inr v"
    and "w' = w1\<lparr>log := log w1 @ [fetchRequest s' url method body h]\<rparr>"
  using assms
  by (auto simp: doFetch_def Let_def split: prod.splits sum.splits option.splits if_splits)





lemma isTokenExchange_endpoint:
  "endpoint s' = endpoint s \<Longrightarrow> isTokenExchange s' = isTokenExchange s"
  by (auto simp: isTokenExchange_def fun_eq_iff)

lemma apiCalls_append:
  assumes "log w' = log w @ xs"
  shows "apiCalls s w w' =
    map (\<lambda>rq. (req_method rq, req_url rq, req_body rq)) (filter (\<lambda>rq. \<not> isTokenExchange s rq) xs)"
  using assms by (simp add: apiCalls_def newRequests_def)

lemma doFetch_Inr_trace:
  assumes run: "doFetch url method auth body deprecated s w = (Inr v, s', w')"
    and other: "\<not> (method = POST \<and> url = ''/auth/token'')"
  shows "\<exists>xs r. log w' = log w @ xs \<and> xs \<noteq> []
      \<and> map (\<lambda>rq. (req_method rq, req_url rq, req_body rq))
           (filter (\<lambda>rq. \<not> isTokenExchange s rq) xs)
         = [(method, endpoint s @ url, requestBody method body)]
      \<and> req_method (last xs) = method \<and> req_url (last xs) = endpoint s @ url
      \<and> api w (butlast (log w')) (last (log w')) = Some r
      \<and> validateStatus (status r)
      \<and> doFetch_shape method deprecated r = Inr v"
    and "endpoint s' = endpoint s" and "api w' = api w"
proof -
  from run obtain h w1 r where ah: "doFetch_authHeaders auth s w = (Inr h, s', w1)"
    and resp: "api w1 (log w1) (fetchRequest s' url method body h) = Some r"
    and ok: "validateStatus (status r)"
    and shape: "doFetch_shape method deprecated r = Inr v"
    and w': "w' = w1\<lparr>log := log w1 @ [fetchRequest s' url method body h]\<rparr>"
    by (rule doFetch_Inr)
  note aw = doFetch_authHeaders_world [OF ah]
  show ep: "endpoint s' = endpoint s" by (rule aw(5))
  show "api w' = api w" using aw(1) w' by simp
  let ?rq = "fetchRequest s' url method body h"
  have nt: "\<not> isTokenExchange s ?rq"
    using other ep by (auto simp: isTokenExchange_def fetchRequest_def)
  have tk: "isTokenExchange s (tokenRequest s)"
    by (simp add: isTokenExchange_def tokenRequest_def)
  let ?pre = "if auth = Bearer \<and> \<not> isKeySecret s \<and> tokenStale s (clock w (reads w))
               then [tokenRequest s] else []"
  have l1: "log w1 = log w @ ?pre" using aw(4) by simp
  have "log w' = log w @ (?pre @ [?rq])" using l1 w' by simp
  moreover have "map (\<lambda>rq. (req_method rq, req_url rq, req_body rq))
           (filter (\<lambda>rq. \<not> isTokenExchange s rq) (?pre @ [?rq]))
         = [(method, endpoint s @ url, requestBody method body)]"
    using nt tk ep by (simp add: fetchRequest_def)
  moreover have "req_method (last (?pre @ [?rq])) = method"
    "req_url (last (?pre @ [?rq])) = endpoint s @ url"
    using ep by (simp_all add: fetchRequest_def)
  moreover have "api w (butlast (log w')) (last (log w')) = Some r"
    using resp aw(1) w' by simp
  ultimately show "\<exists>xs r. log w' = log w @ xs \<and> xs \<noteq> []
      \<and> map (\<lambda>rq. (req_method rq, req_url rq, req_body rq))
           (filter (\<lambda>rq. \<not> isTokenExchange s rq) xs)
         = [(method, endpoint s @ url, requestBody method body)]
      \<and> req_method (last xs) = method \<and> req_url (last xs) = endpoint s @ url
      \<and> api w (butlast (log w')) (last (log w')) = Some r
      \<and> validateStatus (status r)
      \<and> doFetch_shape method deprecated r = Inr v"
    using shape ok by (intro exI [of _ "?pre @ [?rq]"] exI [of _ r]) simp
qed

lemma initialise_Inr:
  assumes "initialiseAndProgressUser timelineId disableTimeGuards pauseAtBeats maxSteps s w
             = (Inr res, s', w')"
  obtains gr s1 w1 d u s2 w2 er ev where
    "getUser s w = (Inr gr, s1, w1)" "get_prop gr ''data'' = Inr d"
    "if loose_null d
     then (\<exists>cr. createUser timelineId disableTimeGuards pauseAtBeats maxSteps s1 w1
                  = (Inr cr, s2, w2) \<and> get_prop cr ''data'' = Inr u)
     else u = JUndefined \<and> s2 = s1 \<and> w2 = w1"
    "getUserTimelineEvents s2 w2 = (Inr er, s', w')" "get_prop er ''data'' = Inr ev"
    "res = \<lparr>user = u, userTimelineEvents = (if truthy ev then ev else JArr [])\<rparr>"
  using assms unfolding initialiseAndProgressUser_def
  by (auto split: prod.splits sum.splits if_splits)


section \<open>Properties\<close>

text \<open>
  C1. With an apiKey that starts with the secret prefix \<open>s_\<close>, bearer-mode header
  composition returns at once: the session and the world (its request log included) are
  as before, so no token exchange was sent, and the headers carry the raw apiKey as
  \<open>Authorization\<close> and the session's userId as \<open>Fictioneers-User-ID\<close>.
\<close>

theorem secret_key_bearer_headers:
  assumes "prefix SECRET_API_KEY_PREFIX (apiKey s)"
  shows "\<exists>h. getAuthHeadersAudienceEndpoints s w = (Inr h, s, w)
           \<and> map_of h ''Authorization'' = Some (apiKey s)
           \<and> map_of h ''Fictioneers-User-ID'' = Some (userId s)
           \<and> tokenExchanges s w (snd (snd (getAuthHeadersAudienceEndpoints s w))) = 0"
  using assms
  by (simp add: getAuthHeadersAudienceEndpoints_def isKeySecret_iff tokenExchanges_def
      newRequests_def)

text \<open>The theorem at a sample input.\<close>

theorem secret_key_bearer_headers_witness:
  "prefix SECRET_API_KEY_PREFIX (apiKey secretSession)
   \<and> (\<exists>h. getAuthHeadersAudienceEndpoints secretSession (sampleWorld 1000 JNull JNull)
             = (Inr h, secretSession, sampleWorld 1000 JNull JNull)
          \<and> map_of h ''Authorization'' = Some ''s_live''
          \<and> map_of h ''Fictioneers-User-ID'' = Some ''u1'')
   \<and> tokenExchanges secretSession (sampleWorld 1000 JNull JNull)
        (snd (snd (getAuthHeadersAudienceEndpoints secretSession (sampleWorld 1000 JNull JNull))))
       = 0"
proof -
  have h: "prefix SECRET_API_KEY_PREFIX (apiKey secretSession)"
    by (simp add: SECRET_API_KEY_PREFIX_def secretSession_def)
  from secret_key_bearer_headers [OF h, of "sampleWorld 1000 JNull JNull"] h
  show ?thesis by (auto simp: secretSession_def)
qed

text \<open>
  C2, as the code has it. When \<^verbatim>\<open>setAccessToken\<close> exchanges the key for a grant \<open>t\<close>, it
  stores the grant's token and, as expiry, the clock reading it takes right after the
  exchange plus \<open>(expires_in t - 10) * 1000\<close> milliseconds; for \<open>expires_in = 60\<close> that is at
  most this reading plus 50 seconds. It exchanges exactly when the token is missing or
  empty, the expiry is null, or the expiry is strictly earlier than the current time. A
  stored token whose expiry equals the current time is still taken as valid: the session
  is left as it is and nothing is sent.
\<close>

theorem setAccessToken_expiry:
  assumes "setAccessToken s w = (r, s', w')"
  shows "(\<forall>t. tokenStale s (clock w (reads w)) \<and> authToken w (log w) (tokenRequest s) = Some t \<longrightarrow>
            accessToken s' = Some (access_token t)
          \<and> accessTokenExpiry s' = Some (clock w (refreshReading s w) + (expires_in t - 10) * 1000)
          \<and> (expires_in t = 60 \<longrightarrow>
               (\<exists>e. accessTokenExpiry s' = Some e \<and> e \<le> clock w (refreshReading s w) + 50 * 1000)))
       \<and> (tokenExchanges s w w' = (if tokenStale s (clock w (reads w)) then 1 else 0))
       \<and> (\<not> noToken (accessToken s) \<and> accessTokenExpiry s = Some (clock w (reads w)) \<longrightarrow>
            s' = s \<and> log w' = log w)"
proof -
  have granted: "accessToken s' = Some (access_token t)
          \<and> accessTokenExpiry s' = Some (clock w (refreshReading s w) + (expires_in t - 10) * 1000)
          \<and> (expires_in t = 60 \<longrightarrow>
               (\<exists>e. accessTokenExpiry s' = Some e \<and> e \<le> clock w (refreshReading s w) + 50 * 1000))"
    if "tokenStale s (clock w (reads w))" "authToken w (log w) (tokenRequest s) = Some t" for t
    using setAccessToken_granted [OF that, of "refreshReading s w"] assms
    by (auto simp: refreshReading_def)
  have count: "tokenExchanges s w w' = (if tokenStale s (clock w (reads w)) then 1 else 0)"
    using setAccessToken_world(4) [OF assms]
    by (simp add: tokenExchanges_def newRequests_def isTokenExchange_def tokenRequest_def)
  have boundary: "s' = s \<and> log w' = log w"
    if "\<not> noToken (accessToken s)" "accessTokenExpiry s = Some (clock w (reads w))"
  proof -
    from that have "\<not> tokenStale s (clock w (reads w))" by (simp add: tokenStale_def)
    from setAccessToken_fresh [OF this] assms show ?thesis by auto
  qed
  from granted count boundary show ?thesis by blast
qed

text \<open>The theorem at work: a first exchange at time 1000 with a 60-second grant gives the
  expiry 51000, and a cached token that expires at 1000 is kept at time 1000.\<close>

theorem setAccessToken_expiry_witness:
  "tokenStale publicSession (clock (sampleWorld 1000 JNull JNull) (reads (sampleWorld 1000 JNull JNull)))
   \<and> authToken (sampleWorld 1000 JNull JNull) (log (sampleWorld 1000 JNull JNull))
        (tokenRequest publicSession) = Some \<lparr>access_token = ''fresh'', expires_in = 60\<rparr>
   \<and> accessTokenExpiry (fst (snd (setAccessToken publicSession (sampleWorld 1000 JNull JNull))))
        = Some 51000
   \<and> \<not> noToken (accessToken cachedSession)
   \<and> accessTokenExpiry cachedSession
        = Some (clock (sampleWorld 1000 JNull JNull) (reads (sampleWorld 1000 JNull JNull)))
   \<and> fst (snd (setAccessToken cachedSession (sampleWorld 1000 JNull JNull))) = cachedSession"
proof -
  let ?w = "sampleWorld 1000 JNull JNull"
  have r1: "setAccessToken publicSession ?w =
      (fst (setAccessToken publicSession ?w), fst (snd (setAccessToken publicSession ?w)),
       snd (snd (setAccessToken publicSession ?w)))" by simp
  have r2: "setAccessToken cachedSession ?w =
      (fst (setAccessToken cachedSession ?w), fst (snd (setAccessToken cachedSession ?w)),
       snd (snd (setAccessToken cachedSession ?w)))" by simp
  have st: "tokenStale publicSession (clock ?w (reads ?w))"
    and gr: "authToken ?w (log ?w) (tokenRequest publicSession)
               = Some \<lparr>access_token = ''fresh'', expires_in = 60\<rparr>"
    and rr: "clock ?w (refreshReading publicSession ?w) = 1000"
    and nt: "\<not> noToken (accessToken cachedSession)"
    and ex: "accessTokenExpiry cachedSession = Some (clock ?w (reads ?w))"
    by (simp_all add: session_defs observer_defs)
  from setAccessToken_expiry [OF r1] st gr rr
  have "accessTokenExpiry (fst (snd (setAccessToken publicSession ?w))) = Some 51000" by simp
  moreover from setAccessToken_expiry [OF r2] nt ex
  have "fst (snd (setAccessToken cachedSession ?w)) = cachedSession" by blast
  ultimately show ?thesis using st gr nt ex by simp
qed

text \<open>Against C2 as stated (a token whose expiry equals the current time is refreshed):
  with the token \<open>tok\<close> cached until 1000 and the clock at 1000, \<^verbatim>\<open>setAccessToken\<close> sends no
  token exchange and leaves the session unchanged.\<close>

theorem setAccessToken_boundary_counterexample:
  "accessToken cachedSession = Some ''tok''
   \<and> accessTokenExpiry cachedSession
        = Some (clock (sampleWorld 1000 JNull JNull) (reads (sampleWorld 1000 JNull JNull)))
   \<and> tokenExchanges cachedSession (sampleWorld 1000 JNull JNull)
        (snd (snd (setAccessToken cachedSession (sampleWorld 1000 JNull JNull)))) = 0
   \<and> fst (snd (setAccessToken cachedSession (sampleWorld 1000 JNull JNull))) = cachedSession"
  by (simp add: session_defs model_defs observer_defs)

text \<open>
  C3. Calling \<^verbatim>\<open>setUserId\<close> with a value equal to the session's current userId is a no-op:
  it returns without error, the session (userId, accessToken and accessTokenExpiry) is
  unchanged, and so is the world, its request log included, so that no token refresh is
  triggered. Calling it again changes nothing either.
\<close>

theorem setUserId_same:
  "setUserId (userId s) s w = (Inr (), s, w)"
  by (simp add: setUserId_def)

text \<open>
  C4, where the code parts from the claim. Take a DELETE dispatched through \<^verbatim>\<open>_doFetch\<close>
  whose auth headers are assembled and which the remote service answers with \<open>r\<close>. If the
  status of \<open>r\<close> is 2xx, the returned value is exactly
  \<^verbatim>\<open>{data: null, error: null, meta: null, status: 204}\<close>. If the status is 404, or any other
  that is not 2xx, axios rejects the call and \<^verbatim>\<open>_doFetch\<close> ends with that error instead of
  returning the envelope with the status text as \<open>error\<close>; whatever a DELETE returns has
  \<open>error\<close> null.
\<close>

theorem delete_status_outcome:
  assumes "doFetch_authHeaders auth s w = (Inr h, s1, w1)"
    and "api w1 (log w1) (fetchRequest s1 url DELETE body h) = Some r"
  shows "(200 \<le> status r \<and> status r < 300 \<longrightarrow>
            fst (doFetch url DELETE auth body deprecated s w) =
              Inr (JObj [(''data'', JNull), (''error'', JNull), (''meta'', JNull),
                         (''status'', JNum 204)]))
       \<and> (status r = 404 \<longrightarrow>
            fst (doFetch url DELETE auth body deprecated s w) = Inl AxiosError)
       \<and> (\<not> (200 \<le> status r \<and> status r < 300) \<longrightarrow>
            fst (doFetch url DELETE auth body deprecated s w) = Inl AxiosError)"
proof (cases "validateStatus (status r)")
  case True
  from doFetch_resolved [OF assms True, of deprecated] True show ?thesis
    by (simp add: doFetch_shape_def deleteEnvelope_def validateStatus_def)
next
  case False
  from doFetch_rejected [OF assms False, of deprecated] False show ?thesis
    by (auto simp: validateStatus_def)
qed

text \<open>The theorem at two sample calls: deleting the current user, which the sample service
  answers with 404 Not Found, and deleting the users of a timeline, answered with 204.\<close>

theorem delete_status_outcome_witness:
  "doFetch_authHeaders Bearer secretSession (sampleWorld 1000 JNull JNull)
     = (Inr [(''Authorization'', ''s_live''), (''Fictioneers-User-ID'', ''u1'')], secretSession,
        sampleWorld 1000 JNull JNull)
   \<and> api (sampleWorld 1000 JNull JNull) (log (sampleWorld 1000 JNull JNull))
        (fetchRequest secretSession ''/users/me'' DELETE JNull
           [(''Authorization'', ''s_live''), (''Fictioneers-User-ID'', ''u1'')])
       = Some \<lparr>status = 404, statusText = ''Not Found'', data = JStr []\<rparr>
   \<and> fst (deleteUser secretSession (sampleWorld 1000 JNull JNull)) = Inl AxiosError
   \<and> doFetch_authHeaders Key secretSession (sampleWorld 1000 JNull JNull)
       = (Inr [(''Authorization'', ''s_live'')], secretSession, sampleWorld 1000 JNull JNull)
   \<and> api (sampleWorld 1000 JNull JNull) (log (sampleWorld 1000 JNull JNull))
        (fetchRequest secretSession ''/timelines/t1/users'' DELETE JNull
           [(''Authorization'', ''s_live'')])
       = Some \<lparr>status = 204, statusText = ''No Content'', data = JStr []\<rparr>
   \<and> fst (deleteTimelineUsers ''t1'' secretSession (sampleWorld 1000 JNull JNull))
       = Inr (JObj [(''data'', JNull), (''error'', JNull), (''meta'', JNull),
                    (''status'', JNum 204)])"
proof -
  let ?w = "sampleWorld 1000 JNull JNull"
  have a1: "doFetch_authHeaders Bearer secretSession ?w
     = (Inr [(''Authorization'', ''s_live''), (''Fictioneers-User-ID'', ''u1'')], secretSession, ?w)"
    by (simp add: session_defs model_defs)
  have b1: "api ?w (log ?w) (fetchRequest secretSession ''/users/me'' DELETE JNull
           [(''Authorization'', ''s_live''), (''Fictioneers-User-ID'', ''u1'')])
       = Some \<lparr>status = 404, statusText = ''Not Found'', data = JStr []\<rparr>"
    by (simp add: session_defs fetchRequest_def)
  have a2: "doFetch_authHeaders Key secretSession ?w
       = (Inr [(''Authorization'', ''s_live'')], secretSession, ?w)"
    by (simp add: session_defs model_defs)
  have b2: "api ?w (log ?w) (fetchRequest secretSession ''/timelines/t1/users'' DELETE JNull
           [(''Authorization'', ''s_live'')])
       = Some \<lparr>status = 204, statusText = ''No Content'', data = JStr []\<rparr>"
    by (simp add: session_defs fetchRequest_def)
  from delete_status_outcome [OF a1 b1, of False] delete_status_outcome [OF a2 b2, of False]
    a1 b1 a2 b2
  show ?thesis by (simp add: deleteUser_def deleteTimelineUsers_def)
qed

text \<open>
  C5, as the code has it. Take a call of \<^verbatim>\<open>initialiseAndProgressUser\<close> that returns a result.
  If the \<open>data\<close> field of the getUser response is null or absent, the calls sent to the
  service (token exchanges aside) are, in this order, the getUser GET, one createUser POST
  whose body carries the given timeline id as \<open>published_timeline_id\<close> (beside the time
  zone, the two flags and the step limit), and one
  getUserTimelineEvents GET, and the \<open>user\<close> field of the result is the \<open>data\<close> field of the
  createUser response. Otherwise the calls are the getUser GET and one
  getUserTimelineEvents GET, no createUser is sent, and the \<open>user\<close> field of the result is
  left undefined: the user that was fetched is not passed on.
\<close>

theorem initialise_calls:
  assumes run: "initialiseAndProgressUser timelineId disableTimeGuards pauseAtBeats maxSteps s w
                  = (Inr res, s', w')"
  shows "\<exists>gr d. fst (getUser s w) = Inr gr \<and> get_prop gr ''data'' = Inr d \<and>
    (if loose_null d then
       apiCalls s w w' =
         [(GET, endpoint s @ ''/users/me'', None),
          (POST, endpoint s @ ''/users'',
           Some (JObj [(''published_timeline_id'', JStr timelineId),
                       (''timezone'', JStr ''Europe/London''),
                       (''disable_time_guards'', JBool disableTimeGuards),
                       (''pause_at_beats'', JBool pauseAtBeats),
                       (''max_steps'', case maxSteps of None \<Rightarrow> JNull | Some n \<Rightarrow> JNum n)])),
          (GET, endpoint s @ ''/user-timeline-events'', None)]
       \<and> (\<exists>cr. fst (createUser timelineId disableTimeGuards pauseAtBeats maxSteps
                       (fst (snd (getUser s w))) (snd (snd (getUser s w))))
                  = Inr cr \<and> get_prop cr ''data'' = Inr (user res))
     else
       apiCalls s w w' =
         [(GET, endpoint s @ ''/users/me'', None),
          (GET, endpoint s @ ''/user-timeline-events'', None)]
       \<and> user res = JUndefined)"
proof -
  from run obtain gr s1 w1 d u s2 w2 er ev where
    gu: "getUser s w = (Inr gr, s1, w1)" and d: "get_prop gr ''data'' = Inr d"
    and mid: "if loose_null d
     then (\<exists>cr. createUser timelineId disableTimeGuards pauseAtBeats maxSteps s1 w1
                  = (Inr cr, s2, w2) \<and> get_prop cr ''data'' = Inr u)
     else u = JUndefined \<and> s2 = s1 \<and> w2 = w1"
    and ge: "getUserTimelineEvents s2 w2 = (Inr er, s', w')"
    and res: "res = \<lparr>user = u, userTimelineEvents = (if truthy ev then ev else JArr [])\<rparr>"
    by (rule initialise_Inr)
  from doFetch_Inr_trace [OF gu [unfolded getUser_def]]
  obtain xs1 where l1: "log w1 = log w @ xs1"
    and c1: "map (\<lambda>rq. (req_method rq, req_url rq, req_body rq))
           (filter (\<lambda>rq. \<not> isTokenExchange s rq) xs1) = [(GET, endpoint s @ ''/users/me'', None)]"
    and e1: "endpoint s1 = endpoint s"
    by (auto simp: requestBody_def)
  show ?thesis
  proof (cases "loose_null d")
    case True
    with mid obtain cr where
      cu: "createUser timelineId disableTimeGuards pauseAtBeats maxSteps s1 w1 = (Inr cr, s2, w2)"
      and u: "get_prop cr ''data'' = Inr u" by auto
    from doFetch_Inr_trace [OF cu [unfolded createUser_def]] e1
    obtain xs2 where l2: "log w2 = log w1 @ xs2"
      and c2: "map (\<lambda>rq. (req_method rq, req_url rq, req_body rq))
           (filter (\<lambda>rq. \<not> isTokenExchange s rq) xs2) =
              [(POST, endpoint s @ ''/users'',
                Some (JObj [(''published_timeline_id'', JStr timelineId),
                       (''timezone'', JStr ''Europe/London''),
                       (''disable_time_guards'', JBool disableTimeGuards),
                       (''pause_at_beats'', JBool pauseAtBeats),
                       (''max_steps'', case maxSteps of None \<Rightarrow> JNull | Some n \<Rightarrow> JNum n)]))]"
      and e2: "endpoint s2 = endpoint s"
      by (auto simp: requestBody_def isTokenExchange_endpoint [OF e1])
    from doFetch_Inr_trace [OF ge [unfolded getUserTimelineEvents_def]] e2
    obtain xs3 where l3: "log w' = log w2 @ xs3"
      and c3: "map (\<lambda>rq. (req_method rq, req_url rq, req_body rq))
           (filter (\<lambda>rq. \<not> isTokenExchange s rq) xs3) =
              [(GET, endpoint s @ ''/user-timeline-events'', None)]"
      by (auto simp: requestBody_def isTokenExchange_endpoint [OF e2])
    have "log w' = log w @ (xs1 @ xs2 @ xs3)" using l1 l2 l3 by simp
    from apiCalls_append [OF this, of s] c1 c2 c3
    have "apiCalls s w w' =
         [(GET, endpoint s @ ''/users/me'', None),
          (POST, endpoint s @ ''/users'',
           Some (JObj [(''published_timeline_id'', JStr timelineId),
                       (''timezone'', JStr ''Europe/London''),
                       (''disable_time_guards'', JBool disableTimeGuards),
                       (''pause_at_beats'', JBool pauseAtBeats),
                       (''max_steps'', case maxSteps of None \<Rightarrow> JNull | Some n \<Rightarrow> JNum n)])),
          (GET, endpoint s @ ''/user-timeline-events'', None)]" by simp
    with True gu d cu u res show ?thesis by simp
  next
    case False
    with mid have u: "u = JUndefined" and same: "s2 = s1" "w2 = w1" by auto
    from doFetch_Inr_trace [OF ge [unfolded getUserTimelineEvents_def]] e1 same
    obtain xs3 where l3: "log w' = log w1 @ xs3"
      and c3: "map (\<lambda>rq. (req_method rq, req_url rq, req_body rq))
           (filter (\<lambda>rq. \<not> isTokenExchange s rq) xs3) =
              [(GET, endpoint s @ ''/user-timeline-events'', None)]"
      by (auto simp: requestBody_def isTokenExchange_endpoint [OF e1])
    have "log w' = log w @ (xs1 @ xs3)" using l1 l3 by simp
    from apiCalls_append [OF this, of s] c1 c3
    have "apiCalls s w w' =
         [(GET, endpoint s @ ''/users/me'', None),
          (GET, endpoint s @ ''/user-timeline-events'', None)]" by simp
    with False gu d u res show ?thesis by simp
  qed
qed

text \<open>The theorem at two sample runs, without and with an existing user.\<close>

theorem initialise_calls_witness:
  "fst (initialiseAndProgressUser ''t1'' False False None publicSession
          (sampleWorld 1000 JNull (JArr [])))
     = Inr \<lparr>user = JObj [(''id'', JStr ''u1'')], userTimelineEvents = JArr []\<rparr>
   \<and> apiCalls publicSession (sampleWorld 1000 JNull (JArr []))
        (snd (snd (initialiseAndProgressUser ''t1'' False False None publicSession
                     (sampleWorld 1000 JNull (JArr [])))))
       = [(GET, sampleEndpoint @ ''/users/me'', None),
          (POST, sampleEndpoint @ ''/users'', Some (JObj [(''published_timeline_id'', JStr ''t1''),
                       (''timezone'', JStr ''Europe/London''),
                       (''disable_time_guards'', JBool False),
                       (''pause_at_beats'', JBool False),
                       (''max_steps'', JNull)])),
          (GET, sampleEndpoint @ ''/user-timeline-events'', None)]
   \<and> fst (initialiseAndProgressUser ''t1'' False False None publicSession
            (sampleWorld 1000 (JObj [(''id'', JStr ''u1'')]) (JArr [])))
       = Inr \<lparr>user = JUndefined, userTimelineEvents = JArr []\<rparr>
   \<and> apiCalls publicSession (sampleWorld 1000 (JObj [(''id'', JStr ''u1'')]) (JArr []))
        (snd (snd (initialiseAndProgressUser ''t1'' False False None publicSession
                     (sampleWorld 1000 (JObj [(''id'', JStr ''u1'')]) (JArr [])))))
       = [(GET, sampleEndpoint @ ''/users/me'', None),
          (GET, sampleEndpoint @ ''/user-timeline-events'', None)]"
proof -
  let ?w1 = "sampleWorld 1000 JNull (JArr [])"
  let ?w2 = "sampleWorld 1000 (JObj [(''id'', JStr ''u1'')]) (JArr [])"
  let ?run1 = "initialiseAndProgressUser ''t1'' False False None publicSession ?w1"
  let ?run2 = "initialiseAndProgressUser ''t1'' False False None publicSession ?w2"
  have f1: "fst ?run1 = Inr \<lparr>user = JObj [(''id'', JStr ''u1'')], userTimelineEvents = JArr []\<rparr>"
    by (simp add: session_defs model_defs)
  have f2: "fst ?run2 = Inr \<lparr>user = JUndefined, userTimelineEvents = JArr []\<rparr>"
    by (simp add: session_defs model_defs)
  have r1: "?run1 = (Inr \<lparr>user = JObj [(''id'', JStr ''u1'')], userTimelineEvents = JArr []\<rparr>,
                     fst (snd ?run1), snd (snd ?run1))"
    using f1 by (metis prod.collapse)
  have r2: "?run2 = (Inr \<lparr>user = JUndefined, userTimelineEvents = JArr []\<rparr>,
                     fst (snd ?run2), snd (snd ?run2))"
    using f2 by (metis prod.collapse)
  have g1: "fst (getUser publicSession ?w1) = Inr (JObj [(''data'', JNull), (''error'', JNull)])"
    by (simp add: session_defs model_defs)
  have g2: "fst (getUser publicSession ?w2)
              = Inr (JObj [(''data'', JObj [(''id'', JStr ''u1'')]), (''error'', JNull)])"
    by (simp add: session_defs model_defs)
  have ep: "endpoint publicSession = sampleEndpoint" by (simp add: publicSession_def)
  from initialise_calls [OF r1] g1 ep
  have c1: "apiCalls publicSession ?w1 (snd (snd ?run1))
       = [(GET, sampleEndpoint @ ''/users/me'', None),
          (POST, sampleEndpoint @ ''/users'', Some (JObj [(''published_timeline_id'', JStr ''t1''),
                       (''timezone'', JStr ''Europe/London''),
                       (''disable_time_guards'', JBool False),
                       (''pause_at_beats'', JBool False),
                       (''max_steps'', JNull)])),
          (GET, sampleEndpoint @ ''/user-timeline-events'', None)]"
    by auto
  from initialise_calls [OF r2] g2 ep
  have c2: "apiCalls publicSession ?w2 (snd (snd ?run2))
       = [(GET, sampleEndpoint @ ''/users/me'', None),
          (GET, sampleEndpoint @ ''/user-timeline-events'', None)]"
    by auto
  from f1 f2 c1 c2 show ?thesis by simp
qed

text \<open>Against C5 as stated (an existing user is carried in the \<open>user\<close> field): when getUser
  answers with the user \<open>u1\<close>, the result's \<open>user\<close> field is undefined.\<close>

theorem existing_user_counterexample:
  "fst (getUser secretSession (sampleWorld 1000 (JObj [(''id'', JStr ''u1'')]) (JArr [])))
     = Inr (JObj [(''data'', JObj [(''id'', JStr ''u1'')]), (''error'', JNull)])
   \<and> fst (initialiseAndProgressUser ''t1'' False False None secretSession
            (sampleWorld 1000 (JObj [(''id'', JStr ''u1'')]) (JArr [])))
       = Inr \<lparr>user = JUndefined, userTimelineEvents = JArr []\<rparr>"
  by (simp add: session_defs model_defs)

text \<open>
  C6, as the code has it. With an apiKey that does not start with the secret prefix, one
  bearer-mode header composition sends exactly one token exchange when the token is
  missing or empty, the expiry is null, or the expiry is strictly earlier than the current
  time, and sends none otherwise, that is when a non-empty token is cached and its expiry
  is the current time or later.
\<close>

theorem public_key_token_exchanges:
  assumes "\<not> prefix SECRET_API_KEY_PREFIX (apiKey s)"
    and "getAuthHeadersAudienceEndpoints s w = (r, s', w')"
  shows "tokenExchanges s w w' =
     (if noToken (accessToken s) \<or> accessTokenExpiry s = None
         \<or> (\<exists>e. accessTokenExpiry s = Some e \<and> e < clock w (reads w)) then 1 else 0)"
proof -
  have "tokenStale s (clock w (reads w)) \<longleftrightarrow> noToken (accessToken s) \<or> accessTokenExpiry s = None
         \<or> (\<exists>e. accessTokenExpiry s = Some e \<and> e < clock w (reads w))"
    by (auto simp: tokenStale_def split: option.splits)
  with headers_world(4) [OF assms(2)] assms(1) show ?thesis
    by (simp add: tokenExchanges_def newRequests_def isTokenExchange_def tokenRequest_def
        isKeySecret_iff)
qed

text \<open>The theorem at three sample inputs: nothing cached, a token expired one millisecond
  ago, and a token with one millisecond left.\<close>

theorem public_key_token_exchanges_witness:
  "\<not> prefix SECRET_API_KEY_PREFIX (apiKey publicSession)
   \<and> tokenExchanges publicSession (sampleWorld 1000 JNull JNull)
        (snd (snd (getAuthHeadersAudienceEndpoints publicSession (sampleWorld 1000 JNull JNull))))
      = 1
   \<and> \<not> prefix SECRET_API_KEY_PREFIX (apiKey cachedSession)
   \<and> tokenExchanges cachedSession (sampleWorld 1001 JNull JNull)
        (snd (snd (getAuthHeadersAudienceEndpoints cachedSession (sampleWorld 1001 JNull JNull))))
      = 1
   \<and> tokenExchanges cachedSession (sampleWorld 999 JNull JNull)
        (snd (snd (getAuthHeadersAudienceEndpoints cachedSession (sampleWorld 999 JNull JNull))))
      = 0"
proof -
  have p: "\<not> prefix SECRET_API_KEY_PREFIX (apiKey publicSession)"
    and c: "\<not> prefix SECRET_API_KEY_PREFIX (apiKey cachedSession)"
    by (simp_all add: SECRET_API_KEY_PREFIX_def session_defs)
  have run: "getAuthHeadersAudienceEndpoints s w =
      (fst (getAuthHeadersAudienceEndpoints s w), fst (snd (getAuthHeadersAudienceEndpoints s w)),
       snd (snd (getAuthHeadersAudienceEndpoints s w)))" for s w by simp
  from public_key_token_exchanges [OF p run, of "sampleWorld 1000 JNull JNull"]
    public_key_token_exchanges [OF c run, of "sampleWorld 1001 JNull JNull"]
    public_key_token_exchanges [OF c run, of "sampleWorld 999 JNull JNull"] p c
  show ?thesis by (simp add: session_defs)
qed

text \<open>Against C6 as stated (one exchange whenever the expiry is not in the future): with the
  token cached until 1000 and the clock at 1000 the expiry is not in the future, and the
  header composition sends no token exchange.\<close>

theorem bearer_boundary_counterexample:
  "\<not> prefix SECRET_API_KEY_PREFIX (apiKey cachedSession)
   \<and> accessToken cachedSession = Some ''tok''
   \<and> accessTokenExpiry cachedSession = Some 1000
   \<and> clock (sampleWorld 1000 JNull JNull) (reads (sampleWorld 1000 JNull JNull)) = 1000
   \<and> tokenExchanges cachedSession (sampleWorld 1000 JNull JNull)
        (snd (snd (getAuthHeadersAudienceEndpoints cachedSession (sampleWorld 1000 JNull JNull))))
      = 0"
  by (simp add: session_defs model_defs observer_defs)




text \<open>
  C8, as the code has it. In the TypeScript implementation \<^verbatim>\<open>setUserId\<close> with the empty
  string fails with the error \<^verbatim>\<open>The parameter userId must have length\<close> and leaves session
  and world unchanged whenever the current userId is not empty; when the current userId
  is itself empty the equality guard comes first and the call returns without error,
  again changing nothing. The JavaScript implementation fails with that error for every
  session and changes nothing.
\<close>

theorem setUserId_empty:
  "(userId s \<noteq> [] \<longrightarrow>
      setUserId [] s w = (Inl (Error ''The parameter userId must have length''), s, w))
   \<and> (userId s = [] \<longrightarrow> setUserId [] s w = (Inr (), s, w))
   \<and> js_setUserId [] j w = (Inl (Error ''The parameter userId must have length''), j, w)"
  by (auto simp: setUserId_def js_setUserId_def)

text \<open>The theorem at a sample input.\<close>

theorem setUserId_empty_witness:
  "userId secretSession \<noteq> []
   \<and> setUserId [] secretSession (sampleWorld 1000 JNull JNull)
       = (Inl (Error ''The parameter userId must have length''), secretSession,
          sampleWorld 1000 JNull JNull)
   \<and> userId namelessSession = []
   \<and> setUserId [] namelessSession (sampleWorld 1000 JNull JNull)
       = (Inr (), namelessSession, sampleWorld 1000 JNull JNull)
   \<and> js_setUserId [] legacySession (sampleWorld 1000 JNull JNull)
       = (Inl (Error ''The parameter userId must have length''), legacySession,
          sampleWorld 1000 JNull JNull)"
proof -
  have h: "userId secretSession \<noteq> []" "userId namelessSession = []"
    by (simp_all add: secretSession_def namelessSession_def)
  from setUserId_empty [of secretSession "sampleWorld 1000 JNull JNull" legacySession]
    setUserId_empty [of namelessSession "sampleWorld 1000 JNull JNull" legacySession] h
  show ?thesis by simp
qed

text \<open>Against C8 as stated (every empty argument fails): on a session built with the empty
  string as user id, the TypeScript \<^verbatim>\<open>setUserId\<close> with the empty string returns without
  error.\<close>

theorem setUserId_empty_counterexample:
  "userId namelessSession = []
   \<and> setUserId [] namelessSession (sampleWorld 1000 JNull JNull)
       = (Inr (), namelessSession, sampleWorld 1000 JNull JNull)"
  by (simp add: namelessSession_def setUserId_def)




text \<open>
  C10. In every result of \<^verbatim>\<open>initialiseAndProgressUser\<close> the field \<open>userTimelineEvents\<close> is
  neither null nor undefined. The last request of the call is the getUserTimelineEvents
  GET; with \<open>d\<close> the \<open>data\<close> field of the response to it, the field is the empty array when
  \<open>d\<close> is null or absent and is \<open>d\<close> otherwise, for every \<open>d\<close> that the response type admits
  (a list, null or nothing). In terms of the code, the field is \<open>d\<close> when \<open>d\<close> is truthy and
  the empty array when it is not.
\<close>

theorem initialise_events:
  assumes run: "initialiseAndProgressUser timelineId disableTimeGuards pauseAtBeats maxSteps s w
                  = (Inr res, s', w')"
  shows "userTimelineEvents res \<noteq> JNull \<and> userTimelineEvents res \<noteq> JUndefined
    \<and> (\<exists>r d. log w' \<noteq> []
          \<and> req_method (last (log w')) = GET
          \<and> req_url (last (log w')) = endpoint s @ ''/user-timeline-events''
          \<and> api w (butlast (log w')) (last (log w')) = Some r
          \<and> get_prop (data r) ''data'' = Inr d
          \<and> (eventListData d \<longrightarrow>
                userTimelineEvents res = (if loose_null d then JArr [] else d))
          \<and> userTimelineEvents res = (if truthy d then d else JArr []))"
proof -
  from run obtain gr s1 w1 d u s2 w2 er ev where
    gu: "getUser s w = (Inr gr, s1, w1)"
    and mid: "if loose_null d
     then (\<exists>cr. createUser timelineId disableTimeGuards pauseAtBeats maxSteps s1 w1
                  = (Inr cr, s2, w2) \<and> get_prop cr ''data'' = Inr u)
     else u = JUndefined \<and> s2 = s1 \<and> w2 = w1"
    and ge: "getUserTimelineEvents s2 w2 = (Inr er, s', w')"
    and ev: "get_prop er ''data'' = Inr ev"
    and res: "res = \<lparr>user = u, userTimelineEvents = (if truthy ev then ev else JArr [])\<rparr>"
    by (rule initialise_Inr)
  have s1: "endpoint s1 = endpoint s" "api w1 = api w"
    using doFetch_Inr_trace(2,3) [OF gu [unfolded getUser_def]] by simp_all
  have s2: "endpoint s2 = endpoint s \<and> api w2 = api w"
  proof (cases "loose_null d")
    case True
    with mid obtain cr where
      cu: "createUser timelineId disableTimeGuards pauseAtBeats maxSteps s1 w1 = (Inr cr, s2, w2)"
      by auto
    from doFetch_Inr_trace(2,3) [OF cu [unfolded createUser_def]] s1 show ?thesis by simp
  next
    case False
    with mid s1 show ?thesis by simp
  qed
  from doFetch_Inr_trace(1) [OF ge [unfolded getUserTimelineEvents_def]]
  obtain xs r where l: "log w' = log w2 @ xs" "xs \<noteq> []"
    and last: "req_method (last xs) = GET"
      "req_url (last xs) = endpoint s2 @ ''/user-timeline-events''"
    and resp: "api w2 (butlast (log w')) (last (log w')) = Some r"
    and shape: "doFetch_shape GET False r = Inr er"
    by auto
  from shape have er: "er = data r" by (simp add: doFetch_shape_def)
  have nn: "userTimelineEvents res \<noteq> JNull \<and> userTimelineEvents res \<noteq> JUndefined"
    using res by auto
  have typed: "userTimelineEvents res = (if loose_null ev then JArr [] else ev)"
    if "eventListData ev"
    using that res by (cases ev) (auto simp: eventListData_def)
  have "log w' \<noteq> [] \<and> req_method (last (log w')) = GET
          \<and> req_url (last (log w')) = endpoint s @ ''/user-timeline-events''
          \<and> api w (butlast (log w')) (last (log w')) = Some r
          \<and> get_prop (data r) ''data'' = Inr ev
          \<and> (eventListData ev \<longrightarrow>
                userTimelineEvents res = (if loose_null ev then JArr [] else ev))
          \<and> userTimelineEvents res = (if truthy ev then ev else JArr [])"
    using l last resp s2 ev er res typed by simp
  with nn show ?thesis by blast
qed

text \<open>The theorem at two sample runs, with one event and with \<open>data\<close> null.\<close>

theorem initialise_events_witness:
  "fst (initialiseAndProgressUser ''t1'' False False None publicSession
          (sampleWorld 1000 JNull (JArr [JObj [(''id'', JStr ''e1'')]])))
     = Inr \<lparr>user = JObj [(''id'', JStr ''u1'')],
            userTimelineEvents = JArr [JObj [(''id'', JStr ''e1'')]]\<rparr>
   \<and> eventListData (JArr [JObj [(''id'', JStr ''e1'')]])
   \<and> req_url (last (log (snd (snd (initialiseAndProgressUser ''t1'' False False None
        publicSession (sampleWorld 1000 JNull (JArr [JObj [(''id'', JStr ''e1'')]])))))))
       = sampleEndpoint @ ''/user-timeline-events''
   \<and> fst (initialiseAndProgressUser ''t1'' False False None publicSession
            (sampleWorld 1000 JNull JNull))
       = Inr \<lparr>user = JObj [(''id'', JStr ''u1'')], userTimelineEvents = JArr []\<rparr>
   \<and> eventListData JNull
   \<and> userTimelineEvents \<lparr>user = JObj [(''id'', JStr ''u1'')], userTimelineEvents = JArr []\<rparr>
       \<noteq> JNull"
proof -
  let ?w1 = "sampleWorld 1000 JNull (JArr [JObj [(''id'', JStr ''e1'')]])"
  let ?w2 = "sampleWorld 1000 JNull JNull"
  let ?run1 = "initialiseAndProgressUser ''t1'' False False None publicSession ?w1"
  let ?run2 = "initialiseAndProgressUser ''t1'' False False None publicSession ?w2"
  have f1: "fst ?run1 = Inr \<lparr>user = JObj [(''id'', JStr ''u1'')],
            userTimelineEvents = JArr [JObj [(''id'', JStr ''e1'')]]\<rparr>"
    by (simp add: session_defs model_defs)
  have f2: "fst ?run2 = Inr \<lparr>user = JObj [(''id'', JStr ''u1'')], userTimelineEvents = JArr []\<rparr>"
    by (simp add: session_defs model_defs)
  have r1: "?run1 = (Inr \<lparr>user = JObj [(''id'', JStr ''u1'')],
                           userTimelineEvents = JArr [JObj [(''id'', JStr ''e1'')]]\<rparr>,
                     fst (snd ?run1), snd (snd ?run1))"
    using f1 by (metis prod.collapse)
  have r2: "?run2 = (Inr \<lparr>user = JObj [(''id'', JStr ''u1'')], userTimelineEvents = JArr []\<rparr>,
                     fst (snd ?run2), snd (snd ?run2))"
    using f2 by (metis prod.collapse)
  have ep: "endpoint publicSession = sampleEndpoint" by (simp add: publicSession_def)
  have ty: "eventListData (JArr [JObj [(''id'', JStr ''e1'')]])" "eventListData JNull"
    by (simp_all add: eventListData_def)
  from initialise_events [OF r1] ep
  have u: "req_url (last (log (snd (snd ?run1)))) = sampleEndpoint @ ''/user-timeline-events''"
    by auto
  from initialise_events [OF r2]
  have "userTimelineEvents \<lparr>user = JObj [(''id'', JStr ''u1'')], userTimelineEvents = JArr []\<rparr>
       \<noteq> JNull" by blast
  with f1 f2 u ty show ?thesis by simp
qed

end
